theory Spec2Isabelle
  imports Main
begin

section \<open>Numbers of the language: 64-bit binary floating point\<close>

text \<open>
  The calculator computes with the Number type of its language: IEEE 754 binary64.
  A Number is NaN, an infinity with its sign (\<open>True\<close> for negative), or a finite
  value \<open>Finite s m e\<close> of sign \<open>s\<close>, significand \<open>m\<close> and exponent \<open>e\<close>, which
  stands for \<open>m * 2^e\<close>, negated when \<open>s\<close> holds. As in the binary64 format, either
  \<open>2^52 \<le> m < 2^53\<close> and \<open>-1074 \<le> e \<le> 971\<close> (normal numbers), or \<open>m < 2^52\<close> and
  \<open>e = -1074\<close> (subnormal numbers and the two zeros), so that every value has one
  representation.
\<close>

datatype number = NaN | Infinity bool | Finite bool int int

function bitLength :: "int \<Rightarrow> int" where
  "bitLength n = (if n \<le> 0 then 0 else 1 + bitLength (n div 2))"
  by pat_completeness auto
termination
  by (relation "measure nat") auto

declare bitLength.simps [simp del]

text \<open>\<open>atLeastPow b p q k\<close> says \<open>b^k \<le> p / q\<close>, for positive \<open>q\<close> and any integer \<open>k\<close>.\<close>

definition atLeastPow :: "int \<Rightarrow> int \<Rightarrow> int \<Rightarrow> int \<Rightarrow> bool" where
  "atLeastPow b p q k = (if 0 \<le> k then q * b ^ nat k \<le> p else q \<le> p * b ^ nat (- k))"

text \<open>
  \<open>floorLog2 p q\<close> is the integer \<open>k\<close> with \<open>2^k \<le> p / q < 2^(k+1)\<close>, for positive
  \<open>p\<close> and \<open>q\<close>: the difference of the bit lengths, or one less.
\<close>

definition floorLog2 :: "int \<Rightarrow> int \<Rightarrow> int" where
  "floorLog2 p q =
     (if atLeastPow 2 p q (bitLength p - bitLength q) then bitLength p - bitLength q
      else bitLength p - bitLength q - 1)"

text \<open>The integer nearest to \<open>n / d\<close>, the even one of the two on a tie (\<open>d > 0\<close>).\<close>

definition roundHalfEven :: "int \<Rightarrow> int \<Rightarrow> int" where
  "roundHalfEven n d =
     (let f = n div d; r = n mod d
      in if 2 * r < d then f
         else if d < 2 * r then f + 1
         else if even f then f else f + 1)"

text \<open>
  The Number value of the non-negative rational \<open>p / q\<close> with sign \<open>neg\<close>: the nearest
  binary64 value, ties to the even significand, infinity from \<open>2^1024\<close> on. The unit in
  the last place is \<open>2^e\<close>, where \<open>e\<close> leaves 53 bits to the significand and is never
  below \<open>-1074\<close>. The sign is kept, also on a zero.
\<close>

definition roundToDouble :: "bool \<Rightarrow> int \<Rightarrow> int \<Rightarrow> number" where
  "roundToDouble neg p q =
     (if p = 0 then Finite neg 0 (- 1074)
      else let e = max (floorLog2 p q - 52) (- 1074);
               m = (if 0 \<le> e then roundHalfEven p (q * 2 ^ nat e)
                    else roundHalfEven (p * 2 ^ nat (- e)) q);
               m' = (if m = 2 ^ 53 then 2 ^ 52 else m);
               e' = (if m = 2 ^ 53 then e + 1 else e)
           in if 971 < e' then Infinity neg else Finite neg m' e')"

text \<open>The Number value of \<open>v * 2^g\<close> for an integer \<open>v \<ge> 0\<close>.\<close>

definition roundScaled :: "bool \<Rightarrow> int \<Rightarrow> int \<Rightarrow> number" where
  "roundScaled neg v g =
     (if 0 \<le> g then roundToDouble neg (v * 2 ^ nat g) 1 else roundToDouble neg v (2 ^ nat (- g)))"

definition negate :: "number \<Rightarrow> number" where
  "negate x = (case x of NaN \<Rightarrow> NaN | Infinity s \<Rightarrow> Infinity (\<not> s) | Finite s m e \<Rightarrow> Finite (\<not> s) m e)"

text \<open>
  The operators \<open>+\<close>, \<open>-\<close>, \<open>*\<close> and \<open>/\<close> on Numbers: the Number value of the
  exact result, with the usual rules for NaN, the infinities and the zeros. A sum of
  two zeros is \<open>-0\<close> only when both are; a zero added to another Number leaves it as
  it is; a sum that is exactly zero otherwise is \<open>+0\<close>.
\<close>

fun add :: "number \<Rightarrow> number \<Rightarrow> number" where
  "add NaN y = NaN"
| "add x NaN = NaN"
| "add (Infinity s) (Infinity t) = (if s = t then Infinity s else NaN)"
| "add (Infinity s) (Finite t n f) = Infinity s"
| "add (Finite s m e) (Infinity t) = Infinity t"
| "add (Finite s m e) (Finite t n f) =
     (if m = 0 \<and> n = 0 then Finite (s \<and> t) 0 (- 1074)
      else if n = 0 then Finite s m e
      else if m = 0 then Finite t n f
      else let g = min e f;
               a = m * 2 ^ nat (e - g);
               b = n * 2 ^ nat (f - g);
               v = (if s then - a else a) + (if t then - b else b)
           in if v = 0 then Finite False 0 (- 1074) else roundScaled (v < 0) \<bar>v\<bar> g)"

definition subtract :: "number \<Rightarrow> number \<Rightarrow> number" where
  "subtract x y = add x (negate y)"

fun multiply :: "number \<Rightarrow> number \<Rightarrow> number" where
  "multiply NaN y = NaN"
| "multiply x NaN = NaN"
| "multiply (Infinity s) (Infinity t) = Infinity (s \<noteq> t)"
| "multiply (Infinity s) (Finite t n f) = (if n = 0 then NaN else Infinity (s \<noteq> t))"
| "multiply (Finite s m e) (Infinity t) = (if m = 0 then NaN else Infinity (s \<noteq> t))"
| "multiply (Finite s m e) (Finite t n f) = roundScaled (s \<noteq> t) (m * n) (e + f)"

fun divide :: "number \<Rightarrow> number \<Rightarrow> number" where
  "divide NaN y = NaN"
| "divide x NaN = NaN"
| "divide (Infinity s) (Infinity t) = NaN"
| "divide (Infinity s) (Finite t n f) = Infinity (s \<noteq> t)"
| "divide (Finite s m e) (Infinity t) = Finite (s \<noteq> t) 0 (- 1074)"
| "divide (Finite s m e) (Finite t n f) =
     (if n = 0 then (if m = 0 then NaN else Infinity (s \<noteq> t))
      else if f \<le> e then roundToDouble (s \<noteq> t) (m * 2 ^ nat (e - f)) n
      else roundToDouble (s \<noteq> t) m (n * 2 ^ nat (f - e)))"

definition isNaN :: "number \<Rightarrow> bool" where
  "isNaN x = (x = NaN)"

text \<open>The comparison \<open>x === 0\<close>, true of both zeros.\<close>

definition isZero :: "number \<Rightarrow> bool" where
  "isZero x = (case x of Finite s m e \<Rightarrow> m = 0 | _ \<Rightarrow> False)"

text \<open>\<open>Number.EPSILON\<close> is \<open>2^-52\<close>, and the literal \<open>100000000\<close> is exact.\<close>

definition Number_EPSILON :: number where
  "Number_EPSILON = Finite False (2 ^ 52) (- 104)"

definition literal_100000000 :: number where
  "literal_100000000 = roundToDouble False 100000000 1"

text \<open>
  \<open>Math.round\<close>: a Number that is not finite or is integral is returned as it is; a value
  in \<open>(0, 0.5)\<close> gives \<open>+0\<close>, a value in \<open>[-0.5, 0)\<close> gives \<open>-0\<close>; otherwise the
  result is the closest integer, the one closer to plus infinity on a tie. Below,
  \<open>f + r / d\<close> is the magnitude, with \<open>0 < r < d\<close>.
\<close>

definition Math_round :: "number \<Rightarrow> number" where
  "Math_round x =
     (case x of
        NaN \<Rightarrow> NaN
      | Infinity s \<Rightarrow> Infinity s
      | Finite s m e \<Rightarrow>
          (if 0 \<le> e \<or> m mod 2 ^ nat (- e) = 0 then Finite s m e
           else let d = 2 ^ nat (- e); f = m div d; r = m mod d
                in if \<not> s \<and> f = 0 \<and> 2 * r < d then Finite False 0 (- 1074)
                   else if s \<and> f = 0 \<and> 2 * r \<le> d then Finite True 0 (- 1074)
                   else if s then roundToDouble True (if 2 * r \<le> d then f else f + 1) 1
                   else roundToDouble False (if 2 * r < d then f else f + 1) 1))"

subsection \<open>Reading a Number: \<open>parseFloat\<close>\<close>

text \<open>
  Strings are lists of the code units below 256, which is all the calculator builds.
  \<open>parseFloat\<close> skips leading white space and takes the longest prefix that is a
  decimal literal: an optional sign, then \<open>Infinity\<close>, or digits with an optional
  fraction and an optional exponent. Without such a prefix the result is NaN.
\<close>

definition isWhiteSpace :: "char \<Rightarrow> bool" where
  "isWhiteSpace c = (c \<in> set [CHR 0x09, CHR 0x0A, CHR 0x0B, CHR 0x0C, CHR 0x0D, CHR 0x20, CHR 0xA0])"

definition isDecimalDigit :: "char \<Rightarrow> bool" where
  "isDecimalDigit c = (c \<in> set ''0123456789'')"

definition digitValue :: "char \<Rightarrow> int" where
  "digitValue c = of_char c - 48"

definition digitsValue :: "string \<Rightarrow> int" where
  "digitsValue ds = foldl (\<lambda>a c. 10 * a + digitValue c) 0 ds"

text \<open>The Number value of \<open>d * 10^x\<close> for an integer \<open>d \<ge> 0\<close>.\<close>

definition decimalValue :: "bool \<Rightarrow> int \<Rightarrow> int \<Rightarrow> number" where
  "decimalValue neg d x =
     (if 0 \<le> x then roundToDouble neg (d * 10 ^ nat x) 1 else roundToDouble neg d (10 ^ nat (- x)))"

text \<open>
  The exponent part at the head of a string: \<open>e\<close> or \<open>E\<close>, an optional sign and at
  least one digit. Anything else is not part of the literal and counts as exponent 0.
\<close>

definition exponentPart :: "string \<Rightarrow> int" where
  "exponentPart r =
     (if take 1 r = ''e'' \<or> take 1 r = ''E'' then
        (let r1 = drop 1 r;
             r2 = (if take 1 r1 = ''-'' \<or> take 1 r1 = ''+'' then drop 1 r1 else r1);
             ds = takeWhile isDecimalDigit r2
         in if ds = [] then 0
            else if take 1 r1 = ''-'' then - digitsValue ds else digitsValue ds)
      else 0)"

definition parseFloat :: "string \<Rightarrow> number" where
  "parseFloat inputString =
     (let trimmed = dropWhile isWhiteSpace inputString;
          neg = (take 1 trimmed = ''-'');
          unsigned = (if take 1 trimmed = ''-'' \<or> take 1 trimmed = ''+''
                      then drop 1 trimmed else trimmed)
      in if take 8 unsigned = ''Infinity'' then Infinity neg
         else let intDigits = takeWhile isDecimalDigit unsigned;
                  rest = dropWhile isDecimalDigit unsigned;
                  hasDot = (take 1 rest = ''.'');
                  fracDigits = (if hasDot then takeWhile isDecimalDigit (drop 1 rest) else []);
                  rest' = (if hasDot then dropWhile isDecimalDigit (drop 1 rest) else rest)
              in if intDigits = [] \<and> fracDigits = [] then NaN
                 else decimalValue neg (digitsValue (intDigits @ fracDigits))
                        (exponentPart rest' - int (length fracDigits)))"

subsection \<open>Writing a Number: \<open>toString\<close>\<close>

function decLength :: "int \<Rightarrow> int" where
  "decLength n = (if n \<le> 0 then 0 else 1 + decLength (n div 10))"
  by pat_completeness auto
termination
  by (relation "measure nat") auto

declare decLength.simps [simp del]

text \<open>\<open>floorLog10 p q\<close> is the integer \<open>k\<close> with \<open>10^k \<le> p / q < 10^(k+1)\<close>.\<close>

definition floorLog10 :: "int \<Rightarrow> int \<Rightarrow> int" where
  "floorLog10 p q =
     (if atLeastPow 10 p q (decLength p - decLength q) then decLength p - decLength q
      else decLength p - decLength q - 1)"

definition digitChar :: "int \<Rightarrow> char" where
  "digitChar d = ''0123456789'' ! nat d"

function digitsOf :: "int \<Rightarrow> string" where
  "digitsOf n = (if n \<le> 0 then [] else digitsOf (n div 10) @ [digitChar (n mod 10)])"
  by pat_completeness auto
termination
  by (relation "measure nat") auto

declare digitsOf.simps [simp del]

definition decimalString :: "int \<Rightarrow> string" where
  "decimalString n = (if n = 0 then ''0'' else digitsOf n)"

text \<open>
  The digits of a positive finite Number \<open>m * 2^e = p / q\<close>: integers \<open>n\<close>, \<open>k\<close> and
  \<open>s\<close> with \<open>10^(k-1) \<le> s < 10^k\<close> such that \<open>s * 10^(n-k)\<close> has the Number value
  \<open>m * 2^e\<close>, with \<open>k\<close> as small as possible and, among several \<open>s\<close>, the one for which
  \<open>s * 10^(n-k)\<close> is closest to the value (the even one on a tie). With
  \<open>10^(n0-1) \<le> p / q < 10^n0\<close>, the only candidates for \<open>k\<close> digits are the two
  integers \<open>lo\<close> and \<open>lo + 1\<close> around \<open>(p / q) / 10^(n0-k)\<close>;
  \<open>digitsCandidate\<close> tells whether one of them has the Number value sought, and which
  is the better. The search runs from \<open>k\<close> upwards; 17 digits identify every binary64
  value, so it stops there. The result is the pair \<open>(s, n)\<close>.
\<close>

definition digitsCandidate :: "int \<Rightarrow> int \<Rightarrow> int \<Rightarrow> int \<Rightarrow> int \<Rightarrow> int \<Rightarrow> bool \<times> int" where
  "digitsCandidate m e p q n0 k =
     (let x = n0 - k;
          num = (if 0 \<le> x then p else p * 10 ^ nat (- x));
          den = (if 0 \<le> x then q * 10 ^ nat x else q);
          lo = num div den;
          r = num mod den;
          okLo = (decimalValue False lo x = Finite False m e);
          okHi = (decimalValue False (lo + 1) x = Finite False m e);
          nearLo = (2 * r < den \<or> (2 * r = den \<and> even lo))
      in (okLo \<or> okHi,
          if okLo \<and> okHi then (if nearLo then lo else lo + 1)
          else if okLo then lo
          else if okHi then lo + 1
          else (if nearLo then lo else lo + 1)))"

function shortestDigits :: "int \<Rightarrow> int \<Rightarrow> int \<Rightarrow> int \<Rightarrow> int \<Rightarrow> int \<Rightarrow> int \<times> int" where
  "shortestDigits m e p q n0 k =
     (if fst (digitsCandidate m e p q n0 k) \<or> 17 \<le> k
      then (if snd (digitsCandidate m e p q n0 k) = 10 ^ nat k then (10 ^ nat (k - 1), n0 + 1)
            else (snd (digitsCandidate m e p q n0 k), n0))
      else shortestDigits m e p q n0 (k + 1))"
  by pat_completeness auto
termination
  by (relation "measure (\<lambda>(m, e, p, q, n0, k). nat (17 - k))") auto

declare shortestDigits.simps [simp del]

text \<open>
  The text of the digits \<open>s\<close> with decimal exponent \<open>n\<close>: plain decimal notation for
  \<open>-5 \<le> n \<le> 21\<close>, exponent notation otherwise.
\<close>

definition formatDigits :: "int \<times> int \<Rightarrow> string" where
  "formatDigits sn =
     (let ds = digitsOf (fst sn); n = snd sn; k = int (length ds)
      in if - 5 \<le> n \<and> n \<le> 21 then
           (if k \<le> n then ds @ replicate (nat (n - k)) (CHR ''0'')
            else if 0 < n then take (nat n) ds @ ''.'' @ drop (nat n) ds
            else ''0.'' @ replicate (nat (- n)) (CHR ''0'') @ ds)
         else
           (if k = 1 then ds else take 1 ds @ ''.'' @ drop 1 ds)
           @ ''e'' @ (if n < 0 then ''-'' else ''+'') @ decimalString \<bar>n - 1\<bar>)"

text \<open>The digits of the positive Number \<open>m * 2^e\<close>, which is the rational \<open>p / q\<close>.\<close>

definition digitsFrom :: "int \<Rightarrow> int \<Rightarrow> int \<Rightarrow> int \<Rightarrow> int \<times> int" where
  "digitsFrom m e p q = shortestDigits m e p q (floorLog10 p q + 1) 1"

fun Number_toString :: "number \<Rightarrow> string" where
  "Number_toString NaN = ''NaN''"
| "Number_toString (Infinity s) = (if s then ''-Infinity'' else ''Infinity'')"
| "Number_toString (Finite s m e) =
     (if m = 0 then ''0''
      else (if s then ''-'' else [])
           @ formatDigits (if 0 \<le> e then digitsFrom m e (m * 2 ^ nat e) 1
                           else digitsFrom m e m (2 ^ nat (- e))))"

section \<open>The calculator\<close>

text \<open>
  The state of a \<open>Calculator\<close>. \<open>None\<close> stands for \<open>null\<close>. The page's display element
  and the button animations are written by the methods and never read by them; they are
  left out.
\<close>

record CalculatorState =
  currentInput :: string
  operator :: "string option"
  previousInput :: "string option"
  shouldResetDisplay :: bool

text \<open>The state the constructor builds.\<close>

definition constructor :: CalculatorState where
  "constructor = \<lparr>currentInput = ''0'', operator = None, previousInput = None,
                   shouldResetDisplay = False\<rparr>"

text \<open>
  A method either returns, with the new state (\<open>Inr\<close>), or throws (\<open>Inl\<close>). The one
  \<open>throw\<close> statement of the class is in \<open>calculate\<close>.
\<close>

datatype exn = Error string

text \<open>\<open>s.slice(start, end)\<close> and \<open>s.includes(t)\<close> of the language's strings.\<close>

definition String_slice :: "string \<Rightarrow> int \<Rightarrow> int \<Rightarrow> string" where
  "String_slice s start final =
     (let len = int (length s);
          from = (if start < 0 then max (len + start) 0 else min start len);
          to = (if final < 0 then max (len + final) 0 else min final len)
      in take (nat (to - from)) (drop (nat from) s))"

fun String_includes :: "string \<Rightarrow> string \<Rightarrow> bool" where
  "String_includes [] t = (t = [])"
| "String_includes (c # cs) t = (take (length t) (c # cs) = t \<or> String_includes cs t)"

definition clear :: "CalculatorState \<Rightarrow> exn + CalculatorState" where
  "clear st = Inr \<lparr>currentInput = ''0'', operator = None, previousInput = None,
                   shouldResetDisplay = False\<rparr>"

definition deleteLast :: "CalculatorState \<Rightarrow> exn + CalculatorState" where
  "deleteLast st =
     (if 1 < length (currentInput st)
      then Inr (st\<lparr>currentInput := String_slice (currentInput st) 0 (- 1)\<rparr>)
      else Inr (st\<lparr>currentInput := ''0''\<rparr>))"

definition appendNumber :: "string \<Rightarrow> CalculatorState \<Rightarrow> exn + CalculatorState" where
  "appendNumber num st =
     (let st1 = (if shouldResetDisplay st
                 then st\<lparr>currentInput := [], shouldResetDisplay := False\<rparr> else st)
      in if num = ''.'' \<and> String_includes (currentInput st1) ''.'' then Inr st1
         else if currentInput st1 = ''0'' \<and> num \<noteq> ''.'' then Inr (st1\<lparr>currentInput := num\<rparr>)
         else Inr (st1\<lparr>currentInput := currentInput st1 @ num\<rparr>))"

text \<open>
  The \<open>switch\<close> of \<open>calculate\<close>: it throws on a division by zero (\<open>Inl\<close>), leaves the
  method on an unknown operator (\<open>Inr None\<close>), and otherwise gives the result.
\<close>

definition calculate_switch :: "string \<Rightarrow> number \<Rightarrow> number \<Rightarrow> exn + number option" where
  "calculate_switch opr prev current =
     (if opr = ''+'' then Inr (Some (add prev current))
      else if opr = ''-'' then Inr (Some (subtract prev current))
      else if opr = ''*'' then Inr (Some (multiply prev current))
      else if opr = ''/'' then
        (if isZero current then Inl (Error ''Division by zero'')
         else Inr (Some (divide prev current)))
      else Inr None)"

text \<open>\<open>Math.round((result + Number.EPSILON) * 100000000) / 100000000\<close>\<close>

definition roundResult :: "number \<Rightarrow> number" where
  "roundResult result =
     divide (Math_round (multiply (add result Number_EPSILON) literal_100000000))
       literal_100000000"

text \<open>
  \<open>calculate\<close>. \<open>parseFloat\<close> applied to \<open>null\<close> reads the text \<open>null\<close>. The \<open>Inl\<close>
  case of the switch is the \<open>catch\<close> block.
\<close>

definition calculate :: "CalculatorState \<Rightarrow> exn + CalculatorState" where
  "calculate st =
     (case operator st of
        None \<Rightarrow> Inr st
      | Some opr \<Rightarrow>
          if shouldResetDisplay st then Inr st
          else let prev = parseFloat (case previousInput st of None \<Rightarrow> ''null'' | Some t \<Rightarrow> t);
                   current = parseFloat (currentInput st)
               in if isNaN prev \<or> isNaN current then Inr (st\<lparr>currentInput := ''Error''\<rparr>)
                  else (case calculate_switch opr prev current of
                          Inl error \<Rightarrow> Inr (st\<lparr>currentInput := ''Error''\<rparr>)
                        | Inr None \<Rightarrow> Inr st
                        | Inr (Some result) \<Rightarrow>
                            Inr (st\<lparr>currentInput := Number_toString (roundResult result),
                                    operator := None, previousInput := None,
                                    shouldResetDisplay := True\<rparr>)))"

definition appendOperator :: "string \<Rightarrow> CalculatorState \<Rightarrow> exn + CalculatorState" where
  "appendOperator opr st =
     (case (if operator st \<noteq> None \<and> \<not> shouldResetDisplay st then calculate st else Inr st) of
        Inl error \<Rightarrow> Inl error
      | Inr st1 \<Rightarrow>
          Inr (st1\<lparr>operator := Some opr, previousInput := Some (currentInput st1),
                   shouldResetDisplay := True\<rparr>))"

text \<open>A call of one of the five methods, and a sequence of calls, which an exception ends.\<close>

datatype call = Clear | DeleteLast | AppendNumber string | AppendOperator string | Calculate

fun perform :: "call \<Rightarrow> CalculatorState \<Rightarrow> exn + CalculatorState" where
  "perform Clear st = clear st"
| "perform DeleteLast st = deleteLast st"
| "perform (AppendNumber num) st = appendNumber num st"
| "perform (AppendOperator opr) st = appendOperator opr st"
| "perform Calculate st = calculate st"

fun run :: "call list \<Rightarrow> CalculatorState \<Rightarrow> exn + CalculatorState" where
  "run [] st = Inr st"
| "run (c # cs) st = (case perform c st of Inl error \<Rightarrow> Inl error | Inr st1 \<Rightarrow> run cs st1)"

text \<open>The calls whose token, if they have one, is not the empty string.\<close>

fun nonEmptyToken :: "call \<Rightarrow> bool" where
  "nonEmptyToken (AppendNumber num) = (num \<noteq> [])"
| "nonEmptyToken c = True"

section \<open>The display\<close>

text \<open>
  \<open>Math.abs\<close> and the comparison \<open>x >= y\<close> on Numbers; a comparison with NaN is false.
\<close>

definition Math_abs :: "number \<Rightarrow> number" where
  "Math_abs x = (case x of NaN \<Rightarrow> NaN | Infinity s \<Rightarrow> Infinity False | Finite s m e \<Rightarrow> Finite False m e)"

fun greaterOrEqual :: "number \<Rightarrow> number \<Rightarrow> bool" where
  "greaterOrEqual NaN y = False"
| "greaterOrEqual x NaN = False"
| "greaterOrEqual (Infinity s) (Infinity t) = (if s then t else True)"
| "greaterOrEqual (Infinity s) (Finite t n f) = (if s then False else True)"
| "greaterOrEqual (Finite s m e) (Infinity t) = t"
| "greaterOrEqual (Finite s m e) (Finite t n f) =
     ((if t then - (n * 2 ^ nat (f - min e f)) else n * 2 ^ nat (f - min e f))
      \<le> (if s then - (m * 2 ^ nat (e - min e f)) else m * 2 ^ nat (e - min e f)))"

definition literal_1000 :: number where
  "literal_1000 = roundToDouble False 1000 1"

text \<open>
  \<open>formatNumber\<close>. The call \<open>number.toLocaleString('en-US', ...)\<close> belongs to the
  runtime library; it is the parameter \<open>toLocaleString\<close>.
\<close>

definition formatNumber :: "(number \<Rightarrow> string) \<Rightarrow> string \<Rightarrow> string" where
  "formatNumber toLocaleString num =
     (if num = ''Error'' then num
      else if isNaN (parseFloat num) then num
      else if greaterOrEqual (Math_abs (parseFloat num)) literal_1000
      then toLocaleString (parseFloat num)
      else Number_toString (parseFloat num))"

text \<open>
  A calculator with its display: \<open>display\<close> is the text content of the display element,
  which is taken to exist. \<open>updateDisplay\<close> writes it from the state. The methods below
  are the five methods once more, now with the display; the animation of the buttons is
  left out.
\<close>

record Calculator =
  display :: string
  state :: CalculatorState

definition updateDisplay :: "(number \<Rightarrow> string) \<Rightarrow> Calculator \<Rightarrow> Calculator" where
  "updateDisplay toLocaleString calc =
     calc\<lparr>display := formatNumber toLocaleString (currentInput (state calc))\<rparr>"

definition clear_display :: "(number \<Rightarrow> string) \<Rightarrow> Calculator \<Rightarrow> exn + Calculator" where
  "clear_display toLocaleString calc =
     Inr (updateDisplay toLocaleString
            (calc\<lparr>state := \<lparr>currentInput = ''0'', operator = None, previousInput = None,
                              shouldResetDisplay = False\<rparr>\<rparr>))"

definition deleteLast_display :: "(number \<Rightarrow> string) \<Rightarrow> Calculator \<Rightarrow> exn + Calculator" where
  "deleteLast_display toLocaleString calc =
     (if 1 < length (currentInput (state calc))
      then Inr (updateDisplay toLocaleString
                  (calc\<lparr>state := (state calc)\<lparr>currentInput :=
                           String_slice (currentInput (state calc)) 0 (- 1)\<rparr>\<rparr>))
      else Inr (updateDisplay toLocaleString
                  (calc\<lparr>state := (state calc)\<lparr>currentInput := ''0''\<rparr>\<rparr>)))"

definition appendNumber_display ::
  "(number \<Rightarrow> string) \<Rightarrow> string \<Rightarrow> Calculator \<Rightarrow> exn + Calculator" where
  "appendNumber_display toLocaleString num calc =
     (let st1 = (if shouldResetDisplay (state calc)
                 then (state calc)\<lparr>currentInput := [], shouldResetDisplay := False\<rparr>
                 else state calc)
      in if num = ''.'' \<and> String_includes (currentInput st1) ''.'' then Inr (calc\<lparr>state := st1\<rparr>)
         else if currentInput st1 = ''0'' \<and> num \<noteq> ''.''
         then Inr (updateDisplay toLocaleString (calc\<lparr>state := st1\<lparr>currentInput := num\<rparr>\<rparr>))
         else Inr (updateDisplay toLocaleString
                     (calc\<lparr>state := st1\<lparr>currentInput := currentInput st1 @ num\<rparr>\<rparr>)))"

definition calculate_display :: "(number \<Rightarrow> string) \<Rightarrow> Calculator \<Rightarrow> exn + Calculator" where
  "calculate_display toLocaleString calc =
     (case operator (state calc) of
        None \<Rightarrow> Inr calc
      | Some opr \<Rightarrow>
          if shouldResetDisplay (state calc) then Inr calc
          else let prev = parseFloat (case previousInput (state calc) of
                                        None \<Rightarrow> ''null'' | Some t \<Rightarrow> t);
                   current = parseFloat (currentInput (state calc))
               in if isNaN prev \<or> isNaN current
                  then Inr (updateDisplay toLocaleString
                              (calc\<lparr>state := (state calc)\<lparr>currentInput := ''Error''\<rparr>\<rparr>))
                  else (case calculate_switch opr prev current of
                          Inl error \<Rightarrow>
                            Inr (updateDisplay toLocaleString
                                   (calc\<lparr>state := (state calc)\<lparr>currentInput := ''Error''\<rparr>\<rparr>))
                        | Inr None \<Rightarrow> Inr calc
                        | Inr (Some result) \<Rightarrow>
                            Inr (updateDisplay toLocaleString
                                   (calc\<lparr>state := (state calc)\<lparr>currentInput :=
                                             Number_toString (roundResult result),
                                           operator := None, previousInput := None,
                                           shouldResetDisplay := True\<rparr>\<rparr>))))"

definition appendOperator_display ::
  "(number \<Rightarrow> string) \<Rightarrow> string \<Rightarrow> Calculator \<Rightarrow> exn + Calculator" where
  "appendOperator_display toLocaleString opr calc =
     (case (if operator (state calc) \<noteq> None \<and> \<not> shouldResetDisplay (state calc)
            then calculate_display toLocaleString calc else Inr calc) of
        Inl error \<Rightarrow> Inl error
      | Inr calc1 \<Rightarrow>
          Inr (calc1\<lparr>state := (state calc1)\<lparr>operator := Some opr,
                         previousInput := Some (currentInput (state calc1)),
                         shouldResetDisplay := True\<rparr>\<rparr>))"

fun perform_display :: "(number \<Rightarrow> string) \<Rightarrow> call \<Rightarrow> Calculator \<Rightarrow> exn + Calculator" where
  "perform_display toLocaleString Clear calc = clear_display toLocaleString calc"
| "perform_display toLocaleString DeleteLast calc = deleteLast_display toLocaleString calc"
| "perform_display toLocaleString (AppendNumber num) calc =
     appendNumber_display toLocaleString num calc"
| "perform_display toLocaleString (AppendOperator opr) calc =
     appendOperator_display toLocaleString opr calc"
| "perform_display toLocaleString Calculate calc = calculate_display toLocaleString calc"

fun run_display :: "(number \<Rightarrow> string) \<Rightarrow> call list \<Rightarrow> Calculator \<Rightarrow> exn + Calculator" where
  "run_display toLocaleString [] calc = Inr calc"
| "run_display toLocaleString (c # cs) calc =
     (case perform_display toLocaleString c calc of
        Inl error \<Rightarrow> Inl error
      | Inr calc1 \<Rightarrow> run_display toLocaleString cs calc1)"

section \<open>Notions used to state the properties\<close>

text \<open>A Number whose significand is not negative, as in every Number the operators build.\<close>

definition wellFormed :: "number \<Rightarrow> bool" where
  "wellFormed x = (case x of Finite s m e \<Rightarrow> 0 \<le> m | _ \<Rightarrow> True)"





section \<open>Properties of the Number operations\<close>

lemma decLength_pos: "0 < n \<Longrightarrow> 0 < decLength n"
proof -
  assume "0 < n"
  have "0 \<le> decLength k" for k
    by (induction k rule: decLength.induct) (simp add: decLength.simps)
  then have "0 \<le> decLength (n div 10)" .
  with \<open>0 < n\<close> show ?thesis
    by (subst decLength.simps) simp
qed

lemma decLength_bounds:
  "0 < n \<Longrightarrow> 10 ^ nat (decLength n - 1) \<le> n \<and> n < 10 ^ nat (decLength n)"
proof (induction n rule: decLength.induct)
  case (1 n)
  show ?case
  proof (cases "n < 10")
    case True
    then have "n div 10 = 0" using 1(2) by simp
    then have "decLength n = 1" using 1(2)
      by (subst decLength.simps) (simp add: decLength.simps)
    then show ?thesis using True 1(2) by simp
  next
    case False
    then have pos: "0 < n div 10" by simp
    define L where "L = decLength (n div 10)"
    have Lpos: "0 < L" unfolding L_def using pos by (rule decLength_pos)
    have IH: "10 ^ nat (L - 1) \<le> n div 10 \<and> n div 10 < 10 ^ nat L"
      unfolding L_def using 1(1) 1(2) pos by simp
    have dl: "decLength n = L + 1" unfolding L_def using 1(2)
      by (subst decLength.simps) simp
    have e1: "nat (L + 1 - 1) = Suc (nat (L - 1))" using Lpos by simp
    have e2: "nat (L + 1) = Suc (nat L)" using Lpos by simp
    have "10 * (n div 10) \<le> n" by simp
    moreover have "n < 10 * (n div 10 + 1)" by simp
    ultimately show ?thesis using IH unfolding dl e1 e2 by simp
  qed
qed

lemma atLeastPow_mono:
  assumes "1 \<le> b" "0 < p" "0 < q" "atLeastPow b p q k" "x \<le> k"
  shows "atLeastPow b p q x"
proof (cases "0 \<le> x")
  case True
  then have k: "0 \<le> k" using assms(5) by simp
  have "b ^ nat x \<le> b ^ nat k"
    using assms(1,5) True by (intro power_increasing) auto
  then have "q * b ^ nat x \<le> q * b ^ nat k"
    using assms(3) by (simp add: mult_left_mono)
  also have "\<dots> \<le> p" using assms(4) k by (simp add: atLeastPow_def)
  finally show ?thesis using True by (simp add: atLeastPow_def)
next
  case False
  have one: "1 \<le> b ^ n" for n using assms(1) by (rule one_le_power)
  show ?thesis
  proof (cases "0 \<le> k")
    case True
    have "q * 1 \<le> q * b ^ nat k" using one assms(3) by (intro mult_left_mono) auto
    also have "\<dots> \<le> p" using assms(4) True by (simp add: atLeastPow_def)
    also have "p * 1 \<le> p * b ^ nat (- x)" using one assms(2) by (intro mult_left_mono) auto
    finally show ?thesis using False by (simp add: atLeastPow_def)
  next
    case k: False
    have "b ^ nat (- k) \<le> b ^ nat (- x)"
      using assms(1,5) by (intro power_increasing) auto
    then have "p * b ^ nat (- k) \<le> p * b ^ nat (- x)"
      using assms(2) by (simp add: mult_left_mono)
    moreover have "q \<le> p * b ^ nat (- k)" using assms(4) k by (simp add: atLeastPow_def)
    ultimately show ?thesis using False by (simp add: atLeastPow_def)
  qed
qed

lemma floorLog10_lower:
  assumes "0 < p" "0 < q"
  shows "atLeastPow 10 p q (floorLog10 p q)"
proof (cases "atLeastPow 10 p q (decLength p - decLength q)")
  case True
  then show ?thesis by (simp add: floorLog10_def)
next
  case False
  define dp where "dp = decLength p"
  define dq where "dq = decLength q"
  have dpp: "0 < dp" and dqp: "0 < dq"
    unfolding dp_def dq_def using assms by (simp_all add: decLength_pos)
  have bp: "10 ^ nat (dp - 1) \<le> p" unfolding dp_def using decLength_bounds[OF assms(1)] by simp
  have bq: "q < 10 ^ nat dq" unfolding dq_def using decLength_bounds[OF assms(2)] by simp
  have fl: "floorLog10 p q = dp - dq - 1"
    using False by (simp add: floorLog10_def dp_def dq_def)
  show ?thesis
  proof (cases "0 \<le> dp - dq - 1")
    case True
    have "q * 10 ^ nat (dp - dq - 1) \<le> 10 ^ nat dq * 10 ^ nat (dp - dq - 1)"
      using bq by (intro mult_right_mono) auto
    also have "\<dots> = 10 ^ (nat dq + nat (dp - dq - 1))" by (simp add: power_add)
    also have "nat dq + nat (dp - dq - 1) = nat (dp - 1)" using True dqp by simp
    finally show ?thesis using bp True unfolding fl by (simp add: atLeastPow_def)
  next
    case n: False
    have "q \<le> 10 ^ nat dq" using bq by simp
    also have "nat dq = nat (dp - 1) + nat (- (dp - dq - 1))" using n dpp dqp by simp
    also have "(10::int) ^ (nat (dp - 1) + nat (- (dp - dq - 1)))
        = 10 ^ nat (dp - 1) * 10 ^ nat (- (dp - dq - 1))" by (simp add: power_add)
    also have "\<dots> \<le> p * 10 ^ nat (- (dp - dq - 1))"
      using bp by (intro mult_right_mono) auto
    finally show ?thesis using n unfolding fl by (simp add: atLeastPow_def)
  qed
qed

lemma digitsCandidate_pos:
  assumes "0 < p" "0 < q" "atLeastPow 10 p q (n0 - 1)" "1 \<le> k"
  shows "0 < snd (digitsCandidate m e p q n0 k)"
proof -
  define x where "x = n0 - k"
  define num where "num = (if 0 \<le> x then p else p * 10 ^ nat (- x))"
  define den where "den = (if 0 \<le> x then q * 10 ^ nat x else q)"
  have "atLeastPow 10 p q x"
    using atLeastPow_mono[OF _ assms(1,2,3), of x] assms(4) by (simp add: x_def)
  then have le: "den \<le> num" by (simp add: atLeastPow_def num_def den_def)
  have dpos: "0 < den" using assms(2) by (simp add: den_def)
  have "0 < num div den" using le dpos
    by (simp add: pos_imp_zdiv_pos_iff)
  then show ?thesis
    unfolding digitsCandidate_def Let_def x_def[symmetric] num_def[symmetric] den_def[symmetric]
    by simp
qed

lemma shortestDigits_pos:
  assumes "0 < p" "0 < q" "atLeastPow 10 p q (n0 - 1)" "1 \<le> k"
  shows "0 < fst (shortestDigits m e p q n0 k)"
  using assms
proof (induction m e p q n0 k rule: shortestDigits.induct)
  case (1 m e p q n0 k)
  have c: "0 < snd (digitsCandidate m e p q n0 k)"
    using "1.prems" by (rule digitsCandidate_pos)
  show ?case
  proof (cases "fst (digitsCandidate m e p q n0 k) \<or> 17 \<le> k")
    case True
    then show ?thesis using c by (subst shortestDigits.simps) simp
  next
    case False
    then have "0 < fst (shortestDigits m e p q n0 (k + 1))"
      using "1.IH" "1.prems" by simp
    then show ?thesis using False by (subst shortestDigits.simps) simp
  qed
qed

lemma digitsOf_nonempty: "0 < n \<Longrightarrow> digitsOf n \<noteq> []"
  by (subst digitsOf.simps) simp

lemma formatDigits_nonempty: "0 < fst sn \<Longrightarrow> formatDigits sn \<noteq> []"
  using digitsOf_nonempty[of "fst sn"] by (simp add: formatDigits_def Let_def)

lemma digitsFrom_pos: "0 < p \<Longrightarrow> 0 < q \<Longrightarrow> 0 < fst (digitsFrom m e p q)"
  unfolding digitsFrom_def
  by (rule shortestDigits_pos) (simp_all add: floorLog10_lower)

lemma wellFormed_simps:
  "wellFormed NaN" "wellFormed (Infinity s)" "wellFormed (Finite s m e) = (0 \<le> m)"
  by (simp_all add: wellFormed_def)

lemma roundHalfEven_nonneg: "0 \<le> n \<Longrightarrow> 0 < d \<Longrightarrow> 0 \<le> roundHalfEven n d"
  by (simp add: roundHalfEven_def Let_def pos_imp_zdiv_nonneg_iff)

lemma roundToDouble_wellFormed: "0 \<le> p \<Longrightarrow> 0 < q \<Longrightarrow> wellFormed (roundToDouble neg p q)"
  by (simp add: roundToDouble_def wellFormed_simps Let_def roundHalfEven_nonneg)

lemma roundScaled_wellFormed: "0 \<le> v \<Longrightarrow> wellFormed (roundScaled neg v g)"
  by (simp add: roundScaled_def roundToDouble_wellFormed)

lemma negate_wellFormed: "wellFormed x \<Longrightarrow> wellFormed (negate x)"
  by (cases x) (simp_all add: negate_def wellFormed_simps)

lemma add_wellFormed: "wellFormed x \<Longrightarrow> wellFormed y \<Longrightarrow> wellFormed (add x y)"
  by (cases x; cases y) (simp_all add: Let_def roundScaled_wellFormed wellFormed_simps)

lemma subtract_wellFormed: "wellFormed x \<Longrightarrow> wellFormed y \<Longrightarrow> wellFormed (subtract x y)"
  by (simp add: subtract_def add_wellFormed negate_wellFormed)

lemma digitValue_nonneg: "isDecimalDigit c \<Longrightarrow> 0 \<le> digitValue c"
  by (auto simp: isDecimalDigit_def digitValue_def)

lemma foldl_digits_nonneg:
  "\<forall>c \<in> set ds. isDecimalDigit c \<Longrightarrow> 0 \<le> a
   \<Longrightarrow> 0 \<le> foldl (\<lambda>a c. 10 * a + digitValue c) a ds"
proof (induction ds arbitrary: a)
  case Nil
  then show ?case by simp
next
  case (Cons d ds)
  have "0 \<le> 10 * a + digitValue d"
    using Cons.prems digitValue_nonneg[of d] by simp
  then show ?case using Cons by simp
qed

lemma digitsValue_nonneg: "\<forall>c \<in> set ds. isDecimalDigit c \<Longrightarrow> 0 \<le> digitsValue ds"
  unfolding digitsValue_def by (rule foldl_digits_nonneg) simp_all

lemma decimalValue_wellFormed: "0 \<le> d \<Longrightarrow> wellFormed (decimalValue neg d x)"
  by (simp add: decimalValue_def roundToDouble_wellFormed)

lemma parseFloat_wellFormed: "wellFormed (parseFloat inputString)"
proof -
  have "wellFormed (decimalValue neg (digitsValue (takeWhile isDecimalDigit xs
          @ (if b then takeWhile isDecimalDigit ys else []))) x)" for neg xs ys b x
    by (intro decimalValue_wellFormed digitsValue_nonneg) (auto dest: set_takeWhileD)
  then show ?thesis
    by (simp add: parseFloat_def Let_def wellFormed_simps)
qed

lemma Number_EPSILON_wellFormed: "wellFormed Number_EPSILON"
  by (simp add: Number_EPSILON_def wellFormed_simps)


lemma multiply_wellFormed: "wellFormed x \<Longrightarrow> wellFormed y \<Longrightarrow> wellFormed (multiply x y)"
  by (cases x; cases y) (simp_all add: roundScaled_wellFormed wellFormed_simps)

lemma divide_wellFormed: "wellFormed x \<Longrightarrow> wellFormed y \<Longrightarrow> wellFormed (divide x y)"
  by (cases x; cases y) (simp_all add: roundToDouble_wellFormed wellFormed_simps)

lemma calculate_switch_wellFormed:
  "wellFormed prev \<Longrightarrow> wellFormed current
   \<Longrightarrow> calculate_switch opr prev current = Inr (Some result) \<Longrightarrow> wellFormed result"
  by (auto simp: calculate_switch_def add_wellFormed subtract_wellFormed multiply_wellFormed
      divide_wellFormed split: if_splits)

lemma Math_round_wellFormed: "wellFormed x \<Longrightarrow> wellFormed (Math_round x)"
proof (cases x)
  case (Finite s m e)
  assume "wellFormed x"
  then have m: "0 \<le> m" using Finite by (simp add: wellFormed_simps)
  have f: "0 \<le> m div 2 ^ nat (- e)" using m by (simp add: pos_imp_zdiv_nonneg_iff)
  show ?thesis
    unfolding Finite Math_round_def Let_def using m f
    by (simp add: roundToDouble_wellFormed wellFormed_simps)
qed (simp_all add: Math_round_def wellFormed_simps)

lemma literal_100000000_wellFormed: "wellFormed literal_100000000"
  unfolding literal_100000000_def by (rule roundToDouble_wellFormed) simp_all

lemma roundResult_wellFormed: "wellFormed result \<Longrightarrow> wellFormed (roundResult result)"
  unfolding roundResult_def
  by (intro divide_wellFormed Math_round_wellFormed multiply_wellFormed add_wellFormed
      literal_100000000_wellFormed Number_EPSILON_wellFormed)

lemma Number_toString_nonempty: "wellFormed x \<Longrightarrow> Number_toString x \<noteq> []"
proof (cases x)
  case (Finite s m e)
  assume "wellFormed x"
  then have m: "0 \<le> m" using Finite by (simp add: wellFormed_simps)
  show ?thesis
  proof (cases "m = 0")
    case True
    then show ?thesis using Finite by simp
  next
    case False
    then have "0 < m" using m by simp
    then have "formatDigits (if 0 \<le> e then digitsFrom m e (m * 2 ^ nat e) 1
                           else digitsFrom m e m (2 ^ nat (- e))) \<noteq> []"
      by (intro formatDigits_nonempty) (simp add: digitsFrom_pos)
    then show ?thesis using Finite False by simp
  qed
qed simp_all





section \<open>Properties of the calculator\<close>

lemma String_slice_butlast: "String_slice s 0 (- 1) = butlast s"
  by (cases "s = []") (simp_all add: String_slice_def Let_def butlast_conv_take nat_diff_distrib')

lemma String_includes_single: "String_includes s [c] = (c \<in> set s)"
  by (induction s) auto

lemma calculate_cases:
  "calculate st = Inr st
   \<or> calculate st = Inr (st\<lparr>currentInput := ''Error''\<rparr>)
   \<or> (\<exists>result. wellFormed result
        \<and> calculate st = Inr (st\<lparr>currentInput := Number_toString (roundResult result),
              operator := None, previousInput := None, shouldResetDisplay := True\<rparr>))"
proof (cases "operator st")
  case None
  then show ?thesis by (simp add: calculate_def)
next
  case (Some opr)
  define prev where "prev = parseFloat (case previousInput st of None \<Rightarrow> ''null'' | Some t \<Rightarrow> t)"
  define current where "current = parseFloat (currentInput st)"
  have wf: "wellFormed prev" "wellFormed current"
    by (simp_all add: prev_def current_def parseFloat_wellFormed)
  show ?thesis
  proof (cases "calculate_switch opr prev current")
    case (Inl error)
    then show ?thesis using Some
      by (simp add: calculate_def Let_def prev_def current_def)
  next
    case (Inr r)
    show ?thesis
    proof (cases r)
      case None
      then show ?thesis using Some Inr
        by (simp add: calculate_def Let_def prev_def current_def)
    next
      case (Some result)
      then have "wellFormed result"
        using wf Inr by (auto intro: calculate_switch_wellFormed)
      then show ?thesis using \<open>operator st = Some opr\<close> Inr Some
        by (auto simp: calculate_def Let_def prev_def current_def)
    qed
  qed
qed

lemma calculate_returns: "\<exists>st'. calculate st = Inr st'"
  using calculate_cases[of st] by auto

lemma perform_returns: "\<exists>st'. perform c st = Inr st'"
proof (cases c)
  case (AppendOperator opr)
  obtain st1 where "calculate st = Inr st1" using calculate_returns by blast
  then show ?thesis using AppendOperator by (simp add: appendOperator_def)
qed (simp_all add: clear_def deleteLast_def appendNumber_def Let_def calculate_returns)

lemma run_returns: "\<exists>st'. run cs st = Inr st'"
proof (induction cs arbitrary: st)
  case Nil
  show ?case by simp
next
  case (Cons c cs)
  obtain st1 where "perform c st = Inr st1" using perform_returns by blast
  then show ?case using Cons by simp
qed

lemma run_append:
  "run (cs @ ds) st = (case run cs st of Inl error \<Rightarrow> Inl error | Inr st1 \<Rightarrow> run ds st1)"
  by (induction cs arbitrary: st) (simp_all split: sum.splits)

lemma calculate_operator_previous:
  assumes "calculate st = Inr st'" "(operator st = None) = (previousInput st = None)"
  shows "(operator st' = None) = (previousInput st' = None)"
  using calculate_cases[of st] assms by auto

lemma perform_operator_previous:
  assumes "perform c st = Inr st'" "(operator st = None) = (previousInput st = None)"
  shows "(operator st' = None) = (previousInput st' = None)"
proof (cases c)
  case Clear
  then show ?thesis using assms by (auto simp: clear_def)
next
  case DeleteLast
  then show ?thesis using assms by (auto simp: deleteLast_def split: if_splits)
next
  case (AppendNumber num)
  then show ?thesis using assms by (auto simp: appendNumber_def Let_def split: if_splits)
next
  case (AppendOperator opr)
  then show ?thesis using assms by (auto simp: appendOperator_def split: sum.splits)
next
  case Calculate
  then show ?thesis using assms calculate_operator_previous by simp
qed

lemma run_operator_previous:
  assumes "run cs st = Inr st'" "(operator st = None) = (previousInput st = None)"
  shows "(operator st' = None) = (previousInput st' = None)"
  using assms
proof (induction cs arbitrary: st)
  case Nil
  then show ?case by simp
next
  case (Cons c cs)
  obtain st1 where p: "perform c st = Inr st1" using perform_returns by blast
  then have "(operator st1 = None) = (previousInput st1 = None)"
    using Cons.prems(2) by (rule perform_operator_previous)
  moreover have "run cs st1 = Inr st'" using Cons.prems(1) p by simp
  ultimately show ?case by (rule Cons.IH[rotated])
qed

lemma calculate_nonempty:
  assumes "calculate st = Inr st'" "currentInput st \<noteq> []"
  shows "currentInput st' \<noteq> []"
  using calculate_cases[of st] assms
  by (auto simp: Number_toString_nonempty roundResult_wellFormed)

lemma perform_nonempty:
  assumes "perform c st = Inr st'" "nonEmptyToken c" "currentInput st \<noteq> []"
  shows "currentInput st' \<noteq> []"
proof (cases c)
  case Clear
  then show ?thesis using assms by (auto simp: clear_def)
next
  case DeleteLast
  have "butlast s \<noteq> []" if "1 < length s" for s :: string
    using that by (cases s rule: rev_cases) auto
  then show ?thesis using DeleteLast assms
    by (auto simp: deleteLast_def String_slice_butlast split: if_splits)
next
  case (AppendNumber num)
  then show ?thesis using assms by (auto simp: appendNumber_def Let_def split: if_splits)
next
  case (AppendOperator opr)
  then show ?thesis using assms calculate_nonempty
    by (auto simp: appendOperator_def split: sum.splits if_splits)
next
  case Calculate
  then show ?thesis using assms calculate_nonempty by simp
qed

lemma run_nonempty:
  assumes "run cs st = Inr st'" "list_all nonEmptyToken cs" "currentInput st \<noteq> []"
  shows "currentInput st' \<noteq> []"
  using assms
proof (induction cs arbitrary: st)
  case Nil
  then show ?case by simp
next
  case (Cons c cs)
  obtain st1 where p: "perform c st = Inr st1" using perform_returns by blast
  then have "currentInput st1 \<noteq> []"
    using Cons.prems(2,3) by (intro perform_nonempty[OF p]) simp_all
  moreover have "run cs st1 = Inr st'" using Cons.prems(1) p by simp
  moreover have "list_all nonEmptyToken cs" using Cons.prems(2) by simp
  ultimately show ?case using Cons.IH by blast
qed




section \<open>Properties of the display\<close>

lemma calculate_display_state:
  "map_sum id state (calculate_display L calc) = calculate (state calc)"
  by (auto simp: calculate_display_def calculate_def updateDisplay_def Let_def
      split: option.splits sum.splits)

lemma perform_display_state:
  "map_sum id state (perform_display L c calc) = perform c (state calc)"
proof (cases c)
  case Clear
  then show ?thesis by (simp add: clear_display_def clear_def updateDisplay_def)
next
  case DeleteLast
  then show ?thesis by (simp add: deleteLast_display_def deleteLast_def updateDisplay_def)
next
  case (AppendNumber num)
  then show ?thesis
    by (simp add: appendNumber_display_def appendNumber_def updateDisplay_def Let_def)
next
  case (AppendOperator opr)
  show ?thesis
  proof (cases "operator (state calc) \<noteq> None \<and> \<not> shouldResetDisplay (state calc)")
    case True
    then show ?thesis
      using calculate_display_state[of L calc] AppendOperator
      by (cases "calculate_display L calc")
        (auto simp: appendOperator_display_def appendOperator_def split: sum.splits)
  next
    case False
    then show ?thesis using AppendOperator
      by (auto simp: appendOperator_display_def appendOperator_def)
  qed
next
  case Calculate
  then show ?thesis by (simp add: calculate_display_state)
qed

lemma run_display_state:
  "map_sum id state (run_display L cs calc) = run cs (state calc)"
proof (induction cs arbitrary: calc)
  case Nil
  show ?case by simp
next
  case (Cons c cs)
  show ?case
  proof (cases "perform_display L c calc")
    case (Inl error)
    then show ?thesis using perform_display_state[of L c calc] by (auto split: sum.splits)
  next
    case (Inr calc1)
    then have "perform c (state calc) = Inr (state calc1)"
      using perform_display_state[of L c calc] by simp
    then show ?thesis using Inr Cons.IH[of calc1] by simp
  qed
qed

lemma calculate_display_follows:
  assumes "display calc = formatNumber L (currentInput (state calc))"
    "calculate_display L calc = Inr calc1"
  shows "display calc1 = formatNumber L (currentInput (state calc1))"
  using assms
  by (auto simp: calculate_display_def updateDisplay_def Let_def
      split: option.splits sum.splits if_splits)

lemma appendNumber_display_follows:
  assumes "display calc = formatNumber L (currentInput (state calc))"
    "appendNumber_display L num calc = Inr calc1"
  shows "display calc1 = formatNumber L (currentInput (state calc1))"
proof (cases "shouldResetDisplay (state calc)")
  case True
  then show ?thesis using assms(2)
    by (auto simp: appendNumber_display_def updateDisplay_def Let_def)
next
  case False
  show ?thesis
  proof (cases "num = ''.'' \<and> String_includes (currentInput (state calc)) ''.''")
    case True
    then have "calc1 = calc" using assms(2) False by (simp add: appendNumber_display_def Let_def)
    then show ?thesis using assms(1) by simp
  next
    case nr: False
    then show ?thesis using assms(2) False
      by (cases "currentInput (state calc) = ''0'' \<and> num \<noteq> ''.''")
        (auto simp: appendNumber_display_def updateDisplay_def Let_def)
  qed
qed

lemma appendOperator_display_follows:
  assumes "display calc = formatNumber L (currentInput (state calc))"
    "appendOperator_display L opr calc = Inr calc1"
  shows "display calc1 = formatNumber L (currentInput (state calc1))"
proof (cases "operator (state calc) \<noteq> None \<and> \<not> shouldResetDisplay (state calc)")
  case True
  show ?thesis
  proof (cases "calculate_display L calc")
    case (Inl error)
    then show ?thesis using assms(2) True by (simp add: appendOperator_display_def)
  next
    case (Inr calc2)
    then have "display calc2 = formatNumber L (currentInput (state calc2))"
      using assms(1) by (intro calculate_display_follows[of calc L calc2])
    moreover have "calc1 = calc2\<lparr>state := (state calc2)\<lparr>operator := Some opr,
        previousInput := Some (currentInput (state calc2)), shouldResetDisplay := True\<rparr>\<rparr>"
      using assms(2) True Inr by (simp add: appendOperator_display_def)
    ultimately show ?thesis by simp
  qed
next
  case False
  then have "calc1 = calc\<lparr>state := (state calc)\<lparr>operator := Some opr,
        previousInput := Some (currentInput (state calc)), shouldResetDisplay := True\<rparr>\<rparr>"
    using assms(2) by (auto simp: appendOperator_display_def)
  then show ?thesis using assms(1) by simp
qed

lemma perform_display_follows:
  assumes "display calc = formatNumber L (currentInput (state calc))"
    "perform_display L c calc = Inr calc1"
  shows "display calc1 = formatNumber L (currentInput (state calc1))"
proof (cases c)
  case Clear
  then show ?thesis using assms(2) by (auto simp: clear_display_def updateDisplay_def)
next
  case DeleteLast
  then show ?thesis using assms(2)
    by (cases "1 < length (currentInput (state calc))")
      (auto simp: deleteLast_display_def updateDisplay_def)
next
  case (AppendNumber num)
  then have "appendNumber_display L num calc = Inr calc1" using assms(2) by simp
  with assms(1) show ?thesis by (rule appendNumber_display_follows)
next
  case (AppendOperator opr)
  then have "appendOperator_display L opr calc = Inr calc1" using assms(2) by simp
  with assms(1) show ?thesis by (rule appendOperator_display_follows)
next
  case Calculate
  then have "calculate_display L calc = Inr calc1" using assms(2) by simp
  with assms(1) show ?thesis by (rule calculate_display_follows)
qed

lemma run_display_follows:
  assumes "display calc = formatNumber L (currentInput (state calc))"
    "run_display L cs calc = Inr calc1"
  shows "display calc1 = formatNumber L (currentInput (state calc1))"
  using assms
proof (induction cs arbitrary: calc)
  case Nil
  then show ?case by simp
next
  case (Cons c cs)
  show ?case
  proof (cases "perform_display L c calc")
    case (Inl error)
    then show ?thesis using Cons.prems(2) by simp
  next
    case (Inr calc2)
    have "display calc2 = formatNumber L (currentInput (state calc2))"
      using Cons.prems(1) Inr by (rule perform_display_follows)
    moreover have "run_display L cs calc2 = Inr calc1" using Cons.prems(2) Inr by simp
    ultimately show ?thesis by (rule Cons.IH)
  qed
qed

section \<open>The claims\<close>




text \<open>
  Claim C2. Entering 5, +, 3, +, 2, = from the default state leaves the current input
  \<open>10\<close>: the second \<open>+\<close> already resolves \<open>5 + 3\<close>, so that after it both the
  current and the previous input are \<open>8\<close>. In general \<open>appendOperator\<close>, called
  with an operator pending and the reset flag down, runs \<open>calculate\<close> first and then
  records the operator on the state \<open>calculate\<close> returned.
\<close>

theorem chained_operators_left_to_right:
  "run [AppendNumber ''5'', AppendOperator ''+'', AppendNumber ''3'', AppendOperator ''+'',
        AppendNumber ''2'', Calculate] constructor
     = Inr \<lparr>currentInput = ''10'', operator = None, previousInput = None,
             shouldResetDisplay = True\<rparr>
   \<and> run [AppendNumber ''5'', AppendOperator ''+'', AppendNumber ''3'', AppendOperator ''+'']
         constructor
     = Inr \<lparr>currentInput = ''8'', operator = Some ''+'', previousInput = Some ''8'',
             shouldResetDisplay = True\<rparr>
   \<and> (\<forall>opr st st1. operator st \<noteq> None \<and> \<not> shouldResetDisplay st \<and> calculate st = Inr st1
        \<longrightarrow> appendOperator opr st
            = Inr (st1\<lparr>operator := Some opr, previousInput := Some (currentInput st1),
                       shouldResetDisplay := True\<rparr>))"
proof (intro conjI allI impI)
  show "run [AppendNumber ''5'', AppendOperator ''+'', AppendNumber ''3'', AppendOperator ''+'',
        AppendNumber ''2'', Calculate] constructor
     = Inr \<lparr>currentInput = ''10'', operator = None, previousInput = None,
             shouldResetDisplay = True\<rparr>"
    by code_simp
next
  show "run [AppendNumber ''5'', AppendOperator ''+'', AppendNumber ''3'', AppendOperator ''+'']
         constructor
     = Inr \<lparr>currentInput = ''8'', operator = Some ''+'', previousInput = Some ''8'',
             shouldResetDisplay = True\<rparr>"
    by code_simp
next
  fix opr and st st1 :: CalculatorState
  assume "operator st \<noteq> None \<and> \<not> shouldResetDisplay st \<and> calculate st = Inr st1"
  then show "appendOperator opr st
            = Inr (st1\<lparr>operator := Some opr, previousInput := Some (currentInput st1),
                       shouldResetDisplay := True\<rparr>)"
    by (simp add: appendOperator_def)
qed

theorem chained_operators_left_to_right_witness:
  "appendOperator ''+'' \<lparr>currentInput = ''3'', operator = Some ''+'', previousInput = Some ''5'',
                          shouldResetDisplay = False\<rparr>
   = Inr \<lparr>currentInput = ''8'', operator = Some ''+'', previousInput = Some ''8'',
           shouldResetDisplay = True\<rparr>"
proof -
  let ?st = "\<lparr>currentInput = ''3'', operator = Some ''+'', previousInput = Some ''5'',
              shouldResetDisplay = False\<rparr>"
  let ?st1 = "\<lparr>currentInput = ''8'', operator = None, previousInput = None,
               shouldResetDisplay = True\<rparr>"
  have c: "calculate ?st = Inr ?st1" by code_simp
  have "operator ?st \<noteq> None \<and> \<not> shouldResetDisplay ?st \<and> calculate ?st = Inr ?st1"
    using c by simp
  then have "appendOperator ''+'' ?st
      = Inr (?st1\<lparr>operator := Some ''+'', previousInput := Some (currentInput ?st1),
                   shouldResetDisplay := True\<rparr>)"
    using chained_operators_left_to_right by blast
  then show ?thesis by simp
qed

text \<open>
  Claim C3. After any sequence of calls from the default state, \<open>operator\<close> is not
  \<open>null\<close> exactly when \<open>previousInput\<close> is not \<open>null\<close>.
\<close>

theorem operator_iff_previousInput:
  "\<exists>st. run cs constructor = Inr st \<and> (operator st \<noteq> None) = (previousInput st \<noteq> None)"
proof -
  obtain st where r: "run cs constructor = Inr st" using run_returns by blast
  have "(operator constructor = None) = (previousInput constructor = None)"
    by (simp add: constructor_def)
  with r have "(operator st = None) = (previousInput st = None)"
    by (rule run_operator_previous)
  then have "(operator st \<noteq> None) = (previousInput st \<noteq> None)"
    by (simp del: not_None_eq)
  with r show ?thesis by (intro exI conjI)
qed

text \<open>
  Claim C4. With no operator pending, or with \<open>shouldResetDisplay\<close> true,
  \<open>calculate\<close> returns and leaves the whole state as it was.
\<close>

theorem calculate_noop:
  "operator st = None \<or> shouldResetDisplay st \<Longrightarrow> calculate st = Inr st"
  by (auto simp: calculate_def split: option.splits)

theorem calculate_noop_witness:
  "calculate constructor = Inr constructor
   \<and> calculate \<lparr>currentInput = ''5'', operator = Some ''+'', previousInput = Some ''5'',
                shouldResetDisplay = True\<rparr>
     = Inr \<lparr>currentInput = ''5'', operator = Some ''+'', previousInput = Some ''5'',
             shouldResetDisplay = True\<rparr>"
  using calculate_noop[of constructor]
    calculate_noop[of "\<lparr>currentInput = ''5'', operator = Some ''+'', previousInput = Some ''5'',
                shouldResetDisplay = True\<rparr>"]
  by (simp add: constructor_def)

text \<open>
  Claim C5. \<open>clear\<close> yields the state of a fresh calculator from every state, in
  particular after any sequence of calls.
\<close>

theorem clear_resets:
  "clear st = Inr constructor \<and> run (cs @ [Clear]) constructor = Inr constructor"
proof
  show c: "clear st = Inr constructor" for st by (simp add: clear_def constructor_def)
  obtain st1 where "run cs constructor = Inr st1" using run_returns by blast
  then show "run (cs @ [Clear]) constructor = Inr constructor"
    by (simp add: run_append c)
qed

text \<open>
  Claim C6. Entering 8, /, 0, = from the default state sets the current input to
  \<open>Error\<close>; and every method returns from every state, as does every sequence of
  calls: the exception thrown on a division by zero is caught inside \<open>calculate\<close>.
\<close>

theorem division_by_zero_is_error_not_exception:
  "run [AppendNumber ''8'', AppendOperator ''/'', AppendNumber ''0'', Calculate] constructor
     = Inr \<lparr>currentInput = ''Error'', operator = Some ''/'', previousInput = Some ''8'',
             shouldResetDisplay = False\<rparr>
   \<and> (\<forall>c st. \<exists>st'. perform c st = Inr st')
   \<and> (\<forall>cs st. \<exists>st'. run cs st = Inr st')"
proof (intro conjI allI)
  show "run [AppendNumber ''8'', AppendOperator ''/'', AppendNumber ''0'', Calculate] constructor
     = Inr \<lparr>currentInput = ''Error'', operator = Some ''/'', previousInput = Some ''8'',
             shouldResetDisplay = False\<rparr>"
    by code_simp
qed (rule perform_returns, rule run_returns)

text \<open>
  Claim C7. With \<open>shouldResetDisplay\<close> false and a decimal point already in the
  current input, \<open>appendNumber\<close> of a decimal point leaves the whole state as it was.
\<close>

theorem appendNumber_second_point:
  "\<not> shouldResetDisplay st \<Longrightarrow> CHR ''.'' \<in> set (currentInput st)
   \<Longrightarrow> appendNumber ''.'' st = Inr st"
  by (simp add: appendNumber_def String_includes_single)

theorem appendNumber_second_point_witness:
  "appendNumber ''.'' \<lparr>currentInput = ''1.2'', operator = None, previousInput = None,
                        shouldResetDisplay = False\<rparr>
   = Inr \<lparr>currentInput = ''1.2'', operator = None, previousInput = None,
           shouldResetDisplay = False\<rparr>"
  using appendNumber_second_point[of "\<lparr>currentInput = ''1.2'', operator = None,
      previousInput = None, shouldResetDisplay = False\<rparr>"]
  by simp

text \<open>
  Claim C8. \<open>deleteLast\<close> changes the current input only: to the text without its
  last character when it is longer than one character, and to \<open>0\<close> otherwise.
\<close>

theorem deleteLast_removes_last:
  "deleteLast st
   = Inr (st\<lparr>currentInput := (if 1 < length (currentInput st) then butlast (currentInput st)
                                else ''0'')\<rparr>)"
  by (simp add: deleteLast_def String_slice_butlast)

theorem deleteLast_removes_last_witness:
  "deleteLast \<lparr>currentInput = ''5'', operator = None, previousInput = None,
               shouldResetDisplay = False\<rparr>
     = Inr \<lparr>currentInput = ''0'', operator = None, previousInput = None,
             shouldResetDisplay = False\<rparr>
   \<and> deleteLast \<lparr>currentInput = ''12'', operator = None, previousInput = None,
                 shouldResetDisplay = False\<rparr>
     = Inr \<lparr>currentInput = ''1'', operator = None, previousInput = None,
             shouldResetDisplay = False\<rparr>"
  using deleteLast_removes_last[of "\<lparr>currentInput = ''5'', operator = None,
      previousInput = None, shouldResetDisplay = False\<rparr>"]
    deleteLast_removes_last[of "\<lparr>currentInput = ''12'', operator = None,
      previousInput = None, shouldResetDisplay = False\<rparr>"]
  by simp

text \<open>
  Claim C9, as the code has it. After any sequence of calls from the default state in
  which no \<open>appendNumber\<close> is given the empty string (a digit and the decimal point
  are not empty), the current input is not the empty string.
\<close>

theorem currentInput_never_empty:
  "list_all nonEmptyToken cs
   \<Longrightarrow> \<exists>st. run cs constructor = Inr st \<and> currentInput st \<noteq> []"
proof -
  assume a: "list_all nonEmptyToken cs"
  obtain st where r: "run cs constructor = Inr st" using run_returns by blast
  have "currentInput constructor \<noteq> []" by (simp add: constructor_def)
  with r a have "currentInput st \<noteq> []" by (rule run_nonempty)
  with r show ?thesis by simp
qed

theorem currentInput_never_empty_witness:
  "\<exists>st. run [AppendNumber ''7'', AppendOperator ''+'', AppendNumber ''.'', DeleteLast, Calculate]
           constructor = Inr st
        \<and> currentInput st \<noteq> []"
  using currentInput_never_empty[of "[AppendNumber ''7'', AppendOperator ''+'',
      AppendNumber ''.'', DeleteLast, Calculate]"]
  by simp

text \<open>
  \<open>appendNumber\<close> does not look at its token: with the empty string, after an operator,
  it empties the current input and appends nothing.
\<close>

theorem currentInput_empty_counterexample:
  "run [AppendNumber ''5'', AppendOperator ''+'', AppendNumber []] constructor
   = Inr \<lparr>currentInput = [], operator = Some ''+'', previousInput = Some ''5'',
           shouldResetDisplay = False\<rparr>"
  by code_simp

text \<open>
  Claim C10. When \<open>calculate\<close> proceeds and an operand does not parse, or the operator
  is \<open>/\<close> and the second operand is zero, only the current input changes, to
  \<open>Error\<close>: the operator stays pending, the previous input stays and
  \<open>shouldResetDisplay\<close> stays false.
\<close>

theorem calculate_error_keeps_fields:
  "operator st = Some opr \<Longrightarrow> \<not> shouldResetDisplay st
   \<Longrightarrow> isNaN (parseFloat (case previousInput st of None \<Rightarrow> ''null'' | Some t \<Rightarrow> t))
       \<or> isNaN (parseFloat (currentInput st))
       \<or> (opr = ''/'' \<and> isZero (parseFloat (currentInput st)))
   \<Longrightarrow> calculate st = Inr (st\<lparr>currentInput := ''Error''\<rparr>)"
  by (auto simp: calculate_def Let_def calculate_switch_def)

theorem calculate_error_keeps_fields_witness:
  "calculate \<lparr>currentInput = ''0'', operator = Some ''/'', previousInput = Some ''8'',
              shouldResetDisplay = False\<rparr>
     = Inr \<lparr>currentInput = ''Error'', operator = Some ''/'', previousInput = Some ''8'',
             shouldResetDisplay = False\<rparr>
   \<and> calculate \<lparr>currentInput = ''.'', operator = Some ''+'', previousInput = Some ''8'',
                shouldResetDisplay = False\<rparr>
     = Inr \<lparr>currentInput = ''Error'', operator = Some ''+'', previousInput = Some ''8'',
             shouldResetDisplay = False\<rparr>"
proof -
  have z: "isZero (parseFloat ''0'')" by code_simp
  have n: "isNaN (parseFloat ''.'')" by code_simp
  show ?thesis
    using z n
      calculate_error_keeps_fields[of "\<lparr>currentInput = ''0'', operator = Some ''/'',
        previousInput = Some ''8'', shouldResetDisplay = False\<rparr>" "''/''"]
      calculate_error_keeps_fields[of "\<lparr>currentInput = ''.'', operator = Some ''+'',
        previousInput = Some ''8'', shouldResetDisplay = False\<rparr>" "''+''"]
    by simp
qed

end
